theory Spec2Isabelle
  imports Complex_Main "HOL-Library.AList" "HOL-Library.Multiset"
    "HOL-Library.Char_ord" "HOL-Library.List_Lexorder"
begin

section \<open>Data model of payment\_system.py\<close>

text \<open>
  The wallet and payment core keeps two line-oriented text files, one JSON object per
  line: the transaction ledger (transactions.txt) and the wallet snapshot (wallets.txt).
  Every reader does, per physical line, \<^verbatim>\<open>line = line.strip()\<close>, skips the line when it
  is empty and otherwise calls \<^verbatim>\<open>json.loads(line)\<close>. A line is therefore modelled by the
  outcome of these two library calls: it is blank, it makes json.loads raise
  JSONDecodeError, or it parses to a dictionary. Writing \<^verbatim>\<open>json.dumps(d) + '\n'\<close> adds a
  line that parses back to \<open>d\<close>.

  Dictionaries with a fixed set of keys are records whose fields are optional: \<open>None\<close>
  is what \<^verbatim>\<open>d.get(key)\<close> returns for a missing key. Fields hold the types of values the
  program itself stores there; a line that parses to something else than such a
  dictionary is outside the model. Amounts and balances are Python floats; they are
  modelled by real numbers, so \<^verbatim>\<open>float(x)\<close> of a number is the number itself, and
  rounding, infinities and NaN are not part of the model. Strings are lists of 8-bit
  characters. The constructors create the two files when they are missing, so both files
  exist.
\<close>

datatype 'a line = Blank | Malformed | Parsed 'a

text \<open>A user id reaches the module as an int (the database key) or as a str.\<close>

datatype pyid = IdInt int | IdStr string

definition digit_char :: "nat \<Rightarrow> char" where
  "digit_char n = ''0123456789'' ! n"

fun str_of_nat :: "nat \<Rightarrow> string" where
  "str_of_nat n = (if n < 10 then [digit_char n] else str_of_nat (n div 10) @ [digit_char (n mod 10)])"

declare str_of_nat.simps [simp del]

definition str_of_int :: "int \<Rightarrow> string" where
  "str_of_int i = (if i < 0 then CHR ''-'' # str_of_nat (nat (- i)) else str_of_nat (nat i))"

text \<open>\<^verbatim>\<open>str(user_id)\<close> on an id, and on the result of \<^verbatim>\<open>d.get('user_id')\<close>.\<close>

fun py_str :: "pyid \<Rightarrow> string" where
  "py_str (IdInt i) = str_of_int i"
| "py_str (IdStr s) = s"

fun py_str_opt :: "pyid option \<Rightarrow> string" where
  "py_str_opt None = ''None''"
| "py_str_opt (Some u) = py_str u"

text \<open>Truthiness of an optional id argument: None, 0 and the empty string are false.\<close>

fun truthy_id :: "pyid option \<Rightarrow> bool" where
  "truthy_id None = False"
| "truthy_id (Some (IdInt i)) = (i \<noteq> 0)"
| "truthy_id (Some (IdStr s)) = (s \<noteq> [])"

record txn =
  t_id :: "string option"
  t_user_id :: "pyid option"
  t_username :: "string option"
  t_amount :: "real option"
  t_method :: "string option"
  t_status :: "string option"
  t_type :: "string option"
  t_description :: "string option"
  t_date :: "string option"
  t_time :: "string option"
  t_timestamp :: "string option"
  t_new_balance :: "real option"

record wallet =
  w_user_id :: "pyid option"
  w_balance :: "real option"
  w_created_at :: "string option"
  w_last_updated :: "string option"

record store =
  wallet_file :: "wallet line list"
  transactions_file :: "txn line list"

text \<open>
  What one call observes of its surroundings: whether each file operation raises IOError,
  what \<^verbatim>\<open>random.random()\<close> and \<^verbatim>\<open>random.randint(100, 999)\<close> return, and what the
  clock returns at each formatting call.
\<close>

record env =
  wallet_read_fails :: bool
  wallet_write_fails :: bool
  txn_read_fails :: bool
  txn_append_fails :: bool
  rnd :: real
  rnd_suffix :: nat
  now_stamp14 :: string
  now_date :: string
  now_time :: string
  now_timestamp :: string
  now_created :: string
  now_updated :: string

datatype error =
    CustomException string
  | InsufficientBalanceException real real
  | TransactionNotFoundException string
  | KeyError string

section \<open>PaymentGateway\<close>

definition success_rate :: real where
  "success_rate = 1.0"

definition generate_transaction_id :: "env \<Rightarrow> string" where
  "generate_transaction_id e = ''TXN'' @ now_stamp14 e @ str_of_nat (rnd_suffix e)"

definition save_transaction :: "env \<Rightarrow> store \<Rightarrow> txn \<Rightarrow> error + store" where
  "save_transaction e s txn_data =
     (if txn_append_fails e then Inl (CustomException ''Error saving transaction'')
      else Inr (s\<lparr>transactions_file := transactions_file s @ [Parsed txn_data]\<rparr>))"

definition process_payment ::
  "env \<Rightarrow> store \<Rightarrow> real \<Rightarrow> string \<Rightarrow> pyid \<Rightarrow> string \<Rightarrow> (error + txn) \<times> store" where
  "process_payment e s amount payment_method user_id description =
     (let txn_id = generate_transaction_id e;
          success = (rnd e < success_rate);
          status = (if success then ''success'' else ''failed'');
          txn_data = \<lparr>t_id = Some txn_id, t_user_id = Some user_id, t_username = None,
                      t_amount = Some amount, t_method = Some payment_method,
                      t_status = Some status, t_type = None,
                      t_description = Some description, t_date = Some (now_date e),
                      t_time = Some (now_time e), t_timestamp = Some (now_timestamp e),
                      t_new_balance = None\<rparr>
      in case save_transaction e s txn_data of
           Inl err \<Rightarrow> (Inl err, s)
         | Inr s' \<Rightarrow> (Inr txn_data, s'))"

text \<open>
  get\_transaction wraps the whole loop in one \<^verbatim>\<open>try\<close>. The first line on which
  json.loads raises JSONDecodeError therefore leaves the loop; the handler is
  \<^verbatim>\<open>pass\<close>, and the function falls off its end: it returns \<^verbatim>\<open>None\<close>. The result is
  \<open>Inr None\<close> for that, \<open>Inr (Some txn)\<close> for a returned record.
\<close>

fun scan_transaction :: "txn line list \<Rightarrow> string \<Rightarrow> pyid option \<Rightarrow> error + txn option" where
  "scan_transaction [] txn_id user_id = Inl (TransactionNotFoundException txn_id)"
| "scan_transaction (Blank # ls) txn_id user_id = scan_transaction ls txn_id user_id"
| "scan_transaction (Malformed # ls) txn_id user_id = Inr None"
| "scan_transaction (Parsed txn # ls) txn_id user_id =
     (if t_id txn = Some txn_id then
        (if truthy_id user_id \<and> py_str_opt (t_user_id txn) \<noteq> py_str_opt user_id
         then scan_transaction ls txn_id user_id
         else Inr (Some txn))
      else scan_transaction ls txn_id user_id)"

definition get_transaction :: "env \<Rightarrow> store \<Rightarrow> string \<Rightarrow> pyid option \<Rightarrow> error + txn option" where
  "get_transaction e s txn_id user_id =
     (if txn_read_fails e then Inl (CustomException ''Error reading transactions'')
      else scan_transaction (transactions_file s) txn_id user_id)"

text \<open>
  \<^verbatim>\<open>transactions.sort(key=lambda x: x.get('timestamp', ''), reverse=True)\<close>. Python's
  sort is stable also with \<^verbatim>\<open>reverse=True\<close> (records with equal keys keep their
  original order): it reverses the list, sorts it ascending and stably, and reverses the
  result. Strings compare lexicographically by character code.
\<close>

definition timestamp_key :: "txn \<Rightarrow> string" where
  "timestamp_key x = (case t_timestamp x of None \<Rightarrow> [] | Some t \<Rightarrow> t)"

definition sort_reverse :: "('a \<Rightarrow> 'k::linorder) \<Rightarrow> 'a list \<Rightarrow> 'a list" where
  "sort_reverse key xs = rev (sort_key key (rev xs))"

fun read_user_lines :: "txn line list \<Rightarrow> string \<Rightarrow> txn list \<Rightarrow> txn list" where
  "read_user_lines [] uid transactions = transactions"
| "read_user_lines (Blank # ls) uid transactions = read_user_lines ls uid transactions"
| "read_user_lines (Malformed # ls) uid transactions = read_user_lines ls uid transactions"
| "read_user_lines (Parsed txn # ls) uid transactions =
     (if py_str_opt (t_user_id txn) = uid
      then read_user_lines ls uid (transactions @ [txn])
      else read_user_lines ls uid transactions)"

definition get_user_transactions :: "env \<Rightarrow> store \<Rightarrow> pyid \<Rightarrow> error + txn list" where
  "get_user_transactions e s user_id =
     (if txn_read_fails e then Inl (CustomException ''Error reading transactions'')
      else Inr (sort_reverse timestamp_key
                  (read_user_lines (transactions_file s) (py_str user_id) [])))"

fun read_all_lines :: "txn line list \<Rightarrow> txn list \<Rightarrow> txn list" where
  "read_all_lines [] transactions = transactions"
| "read_all_lines (Blank # ls) transactions = read_all_lines ls transactions"
| "read_all_lines (Malformed # ls) transactions = read_all_lines ls transactions"
| "read_all_lines (Parsed txn # ls) transactions = read_all_lines ls (transactions @ [txn])"

definition get_all_transactions :: "env \<Rightarrow> store \<Rightarrow> error + txn list" where
  "get_all_transactions e s =
     (if txn_read_fails e then Inl (CustomException ''Error reading transactions'')
      else Inr (sort_reverse timestamp_key (read_all_lines (transactions_file s) [])))"

text \<open>The records a ledger holds: what its parseable lines parse to, in file order.\<close>

fun valid_records :: "'a line list \<Rightarrow> 'a list" where
  "valid_records [] = []"
| "valid_records (Parsed r # ls) = r # valid_records ls"
| "valid_records (_ # ls) = valid_records ls"

section \<open>WalletManager\<close>

text \<open>
  The dictionary \<open>wallets\<close> keeps insertion order, and assigning to a key that is
  present keeps the key's position: an association list under \<open>AList.update\<close>.
\<close>

fun read_wallet_lines :: "wallet line list \<Rightarrow> (string \<times> wallet) list \<Rightarrow> (string \<times> wallet) list" where
  "read_wallet_lines [] wallets = wallets"
| "read_wallet_lines (Blank # ls) wallets = read_wallet_lines ls wallets"
| "read_wallet_lines (Malformed # ls) wallets = read_wallet_lines ls wallets"
| "read_wallet_lines (Parsed w # ls) wallets =
     read_wallet_lines ls (AList.update (py_str_opt (w_user_id w)) w wallets)"

definition read_all_wallets :: "env \<Rightarrow> store \<Rightarrow> error + (string \<times> wallet) list" where
  "read_all_wallets e s =
     (if wallet_read_fails e then Inl (CustomException ''Error reading wallets'')
      else Inr (read_wallet_lines (wallet_file s) []))"

definition write_all_wallets :: "env \<Rightarrow> store \<Rightarrow> (string \<times> wallet) list \<Rightarrow> error + store" where
  "write_all_wallets e s wallets =
     (if wallet_write_fails e then Inl (CustomException ''Error writing wallets'')
      else Inr (s\<lparr>wallet_file := map (\<lambda>kw. Parsed (snd kw)) wallets\<rparr>))"

text \<open>\<^verbatim>\<open>float(wallet.get('balance', 0))\<close>\<close>

definition balance_of :: "wallet \<Rightarrow> real" where
  "balance_of w = (case w_balance w of None \<Rightarrow> 0 | Some b \<Rightarrow> b)"

definition get_balance :: "env \<Rightarrow> store \<Rightarrow> pyid \<Rightarrow> error + real" where
  "get_balance e s user_id =
     (case read_all_wallets e s of
        Inl err \<Rightarrow> Inl err
      | Inr wallets \<Rightarrow>
          (let uid = py_str user_id in
           case map_of wallets uid of
             Some w \<Rightarrow> Inr (balance_of w)
           | None \<Rightarrow> Inr 0))"

definition create_wallet :: "env \<Rightarrow> store \<Rightarrow> pyid \<Rightarrow> real \<Rightarrow> (error + wallet) \<times> store" where
  "create_wallet e s user_id initial_balance =
     (case read_all_wallets e s of
        Inl err \<Rightarrow> (Inl err, s)
      | Inr wallets \<Rightarrow>
          (let uid = py_str user_id in
           case map_of wallets uid of
             Some w \<Rightarrow> (Inr w, s)
           | None \<Rightarrow>
               (let w = \<lparr>w_user_id = Some (IdStr uid), w_balance = Some initial_balance,
                         w_created_at = Some (now_created e),
                         w_last_updated = Some (now_updated e)\<rparr>;
                    wallets' = AList.update uid w wallets
                in case write_all_wallets e s wallets' of
                     Inl err \<Rightarrow> (Inl err, s)
                   | Inr s' \<Rightarrow>
                       (case map_of wallets' uid of
                          None \<Rightarrow> (Inl (KeyError uid), s')
                        | Some w' \<Rightarrow> (Inr w', s')))))"

text \<open>\<^verbatim>\<open>username or f'User #{user_id}'\<close>\<close>

definition display_name :: "string option \<Rightarrow> string \<Rightarrow> string" where
  "display_name username uid =
     (case username of
        None \<Rightarrow> ''User #'' @ uid
      | Some n \<Rightarrow> (if n = [] then ''User #'' @ uid else n))"

text \<open>The wallet inserted by add\_money and credit\_seller when the user has none.\<close>

definition fresh_wallet :: "env \<Rightarrow> string \<Rightarrow> wallet" where
  "fresh_wallet e uid =
     \<lparr>w_user_id = Some (IdStr uid), w_balance = Some 0,
      w_created_at = Some (now_created e), w_last_updated = None\<rparr>"

definition add_money ::
  "env \<Rightarrow> store \<Rightarrow> pyid \<Rightarrow> real \<Rightarrow> string \<Rightarrow> string \<Rightarrow> (error + txn) \<times> store" where
  "add_money e s user_id amount payment_method description =
     (if amount \<le> 0 then (Inl (CustomException ''Amount must be greater than 0''), s)
      else
        case process_payment e s amount payment_method user_id description of
          (Inl err, s1) \<Rightarrow> (Inl err, s1)
        | (Inr txn_result, s1) \<Rightarrow>
            if t_status txn_result = Some ''success'' then
              (case read_all_wallets e s1 of
                 Inl err \<Rightarrow> (Inl err, s1)
               | Inr wallets \<Rightarrow>
                   (let uid = py_str user_id;
                        wallets1 = (if map_of wallets uid = None
                                    then AList.update uid (fresh_wallet e uid) wallets
                                    else wallets)
                    in case map_of wallets1 uid of
                         None \<Rightarrow> (Inl (KeyError uid), s1)
                       | Some w \<Rightarrow>
                           (let w' = w\<lparr>w_balance := Some (balance_of w + amount),
                                       w_last_updated := Some (now_updated e)\<rparr>;
                                wallets2 = AList.update uid w' wallets1
                            in case write_all_wallets e s1 wallets2 of
                                 Inl err \<Rightarrow> (Inl err, s1)
                               | Inr s2 \<Rightarrow>
                                   (Inr (txn_result\<lparr>t_new_balance := w_balance w'\<rparr>), s2))))
            else (Inr txn_result, s1))"

definition deduct_money ::
  "env \<Rightarrow> store \<Rightarrow> pyid \<Rightarrow> real \<Rightarrow> string \<Rightarrow> string option \<Rightarrow> (error + txn) \<times> store" where
  "deduct_money e s user_id amount description username =
     (if amount \<le> 0 then (Inl (CustomException ''Amount must be greater than 0''), s)
      else
        case read_all_wallets e s of
          Inl err \<Rightarrow> (Inl err, s)
        | Inr wallets \<Rightarrow>
            (let uid = py_str user_id;
                 current_balance = (case map_of wallets uid of
                                      None \<Rightarrow> 0
                                    | Some w \<Rightarrow> balance_of w)
             in if current_balance < amount
                then (Inl (InsufficientBalanceException amount current_balance), s)
                else
                  case map_of wallets uid of
                    None \<Rightarrow> (Inl (KeyError uid), s)
                  | Some w \<Rightarrow>
                      (let w' = w\<lparr>w_balance := Some (current_balance - amount),
                                  w_last_updated := Some (now_updated e)\<rparr>;
                           wallets' = AList.update uid w' wallets
                       in case write_all_wallets e s wallets' of
                            Inl err \<Rightarrow> (Inl err, s)
                          | Inr s1 \<Rightarrow>
                              (let txn_result =
                                     \<lparr>t_id = Some (generate_transaction_id e),
                                      t_user_id = Some (IdStr uid),
                                      t_username = Some (display_name username uid),
                                      t_amount = Some amount,
                                      t_method = Some ''wallet'',
                                      t_status = Some ''success'',
                                      t_type = Some ''debit'',
                                      t_description = Some description,
                                      t_date = Some (now_date e),
                                      t_time = Some (now_time e),
                                      t_timestamp = Some (now_timestamp e),
                                      t_new_balance = w_balance w'\<rparr>
                               in case save_transaction e s1 txn_result of
                                    Inl err \<Rightarrow> (Inl err, s1)
                                  | Inr s2 \<Rightarrow> (Inr txn_result, s2)))))"

text \<open>\<^verbatim>\<open>transaction_id or self.payment_gateway.generate_transaction_id()\<close>\<close>

definition id_or_generate :: "env \<Rightarrow> string option \<Rightarrow> string" where
  "id_or_generate e transaction_id =
     (case transaction_id of
        None \<Rightarrow> generate_transaction_id e
      | Some i \<Rightarrow> (if i = [] then generate_transaction_id e else i))"

definition credit_seller ::
  "env \<Rightarrow> store \<Rightarrow> pyid \<Rightarrow> real \<Rightarrow> string \<Rightarrow> string option \<Rightarrow> string option
     \<Rightarrow> (error + txn) \<times> store" where
  "credit_seller e s user_id amount description username transaction_id =
     (if amount \<le> 0 then (Inl (CustomException ''Amount must be greater than 0''), s)
      else
        case read_all_wallets e s of
          Inl err \<Rightarrow> (Inl err, s)
        | Inr wallets \<Rightarrow>
            (let uid = py_str user_id;
                 wallets1 = (if map_of wallets uid = None
                             then AList.update uid (fresh_wallet e uid) wallets
                             else wallets)
             in case map_of wallets1 uid of
                  None \<Rightarrow> (Inl (KeyError uid), s)
                | Some w \<Rightarrow>
                    (let w' = w\<lparr>w_balance := Some (balance_of w + amount),
                                w_last_updated := Some (now_updated e)\<rparr>;
                         wallets2 = AList.update uid w' wallets1
                     in case write_all_wallets e s wallets2 of
                          Inl err \<Rightarrow> (Inl err, s)
                        | Inr s1 \<Rightarrow>
                            (let txn_result =
                                   \<lparr>t_id = Some (id_or_generate e transaction_id),
                                    t_user_id = Some (IdStr uid),
                                    t_username = Some (display_name username uid),
                                    t_amount = Some amount,
                                    t_method = Some ''wallet'',
                                    t_status = Some ''success'',
                                    t_type = Some ''credit'',
                                    t_description = Some description,
                                    t_date = Some (now_date e),
                                    t_time = Some (now_time e),
                                    t_timestamp = Some (now_timestamp e),
                                    t_new_balance = w_balance w'\<rparr>
                             in case save_transaction e s1 txn_result of
                                  Inl err \<Rightarrow> (Inl err, s1)
                                | Inr s2 \<Rightarrow> (Inr txn_result, s2)))))"

section \<open>Order settlement in place\_order (routes.py)\<close>




section \<open>InvoiceGenerator: the description shown on an invoice\<close>

text \<open>
  \<^verbatim>\<open>re.sub(r'\s*\[MANUAL FIX\]\s*', '', description, flags=re.IGNORECASE).strip()\<close>

  Characters are code points below 256. There \<^verbatim>\<open>\s\<close> and \<^verbatim>\<open>str.strip\<close> agree on
  what whitespace is, and ignoring case changes the ASCII letters only, which are the only
  letters of the pattern.
\<close>

definition is_space :: "char \<Rightarrow> bool" where
  "is_space c = (let n = (of_char c :: nat)
                 in (9 \<le> n \<and> n \<le> 13) \<or> (28 \<le> n \<and> n \<le> 32) \<or> n = 133 \<or> n = 160)"

definition lower_ascii :: "char \<Rightarrow> char" where
  "lower_ascii c = (let n = (of_char c :: nat)
                    in if 65 \<le> n \<and> n \<le> 90 then char_of (n + 32) else c)"

text \<open>
  The pattern is a sequence of atoms. The matcher is the backtracking one: a starred
  class first tries to take one more character (greedy) and gives it back when the rest
  of the pattern then fails. \<open>match_here p s\<close> is what follows the match of \<open>p\<close> at the
  start of \<open>s\<close>.
\<close>

datatype atom = WhitespaceStar | Literal char

fun match_here :: "atom list \<Rightarrow> string \<Rightarrow> string option" where
  "match_here [] s = Some s"
| "match_here (Literal c # p) [] = None"
| "match_here (Literal c # p) (x # xs) =
     (if lower_ascii x = lower_ascii c then match_here p xs else None)"
| "match_here (WhitespaceStar # p) [] = match_here p []"
| "match_here (WhitespaceStar # p) (x # xs) =
     (if is_space x
      then (case match_here (WhitespaceStar # p) xs of
              Some r \<Rightarrow> Some r
            | None \<Rightarrow> match_here p (x # xs))
      else match_here p (x # xs))"

definition manual_fix_pattern :: "atom list" where
  "manual_fix_pattern = WhitespaceStar # map Literal ''[MANUAL FIX]'' @ [WhitespaceStar]"

text \<open>
  \<^verbatim>\<open>re.sub(pattern, '', s)\<close>: scanning from the left, the leftmost match is cut out and
  the scan goes on behind it; where the pattern does not match (or matches the empty
  string) the character is kept and the scan moves one character on.
\<close>

function re_sub :: "atom list \<Rightarrow> string \<Rightarrow> string" where
  "re_sub p [] = []"
| "re_sub p (x # xs) =
     (case match_here p (x # xs) of
        None \<Rightarrow> x # re_sub p xs
      | Some r \<Rightarrow> if length r < Suc (length xs) then re_sub p r else x # re_sub p xs)"
  by pat_completeness auto
termination
  by (relation "measure (\<lambda>(p, s). length s)") auto

definition strip :: "string \<Rightarrow> string" where
  "strip s = rev (dropWhile is_space (rev (dropWhile is_space s)))"

definition clean_description :: "string \<Rightarrow> string" where
  "clean_description description = strip (re_sub manual_fix_pattern description)"

text \<open>
  The value of \<^verbatim>\<open>description\<close> that generate\_invoice\_html puts into the Description
  row of the document; \<^verbatim>\<open>transaction.get('description', 'Service Transaction')\<close>.
\<close>

definition invoice_description :: "txn \<Rightarrow> string" where
  "invoice_description transaction =
     clean_description (case t_description transaction of
                          None \<Rightarrow> ''Service Transaction''
                        | Some d \<Rightarrow> d)"

section \<open>Notions of the specification\<close>

text \<open>A user has a stored wallet when a parseable line of the wallet file carries the id.\<close>

definition wallet_key :: "wallet \<Rightarrow> string" where
  "wallet_key w = py_str_opt (w_user_id w)"

definition has_wallet :: "store \<Rightarrow> pyid \<Rightarrow> bool" where
  "has_wallet s u = (py_str u \<in> set (map wallet_key (valid_records (wallet_file s))))"

text \<open>
  What find(id, user\_id?) looks for: a record with the id, and with the user id when one
  is given (compared as \<^verbatim>\<open>str\<close>, and given means truthy).
\<close>

definition matches :: "string \<Rightarrow> pyid option \<Rightarrow> txn \<Rightarrow> bool" where
  "matches txn_id user_id txn =
     (t_id txn = Some txn_id
      \<and> (truthy_id user_id \<longrightarrow> py_str_opt (t_user_id txn) = py_str_opt user_id))"

text \<open>
  The description "with every case-insensitive occurrence of the tag [MANUAL FIX],
  together with surrounding whitespace, removed", read as it is written and without a
  regular expression: the string is cut into its characters and its occurrences of the
  tag; whitespace that follows an occurrence is dropped; whitespace that precedes one
  is dropped; the occurrences are dropped.
\<close>

definition is_tag :: "string \<Rightarrow> bool" where
  "is_tag t = (map lower_ascii t = ''[manual fix]'')"

datatype piece = Tag string | Ch char

function pieces :: "string \<Rightarrow> piece list" where
  "pieces [] = []"
| "pieces (x # xs) =
     (if is_tag (take 12 (x # xs)) then Tag (take 12 (x # xs)) # pieces (drop 11 xs)
      else Ch x # pieces xs)"
  by pat_completeness auto
termination
  by (relation "measure length") auto

fun piece_text :: "piece \<Rightarrow> string" where
  "piece_text (Tag t) = t"
| "piece_text (Ch c) = [c]"

fun is_space_piece :: "piece \<Rightarrow> bool" where
  "is_space_piece (Ch c) = is_space c"
| "is_space_piece (Tag t) = False"

function drop_space_after :: "piece list \<Rightarrow> piece list" where
  "drop_space_after [] = []"
| "drop_space_after (Ch c # ps) = Ch c # drop_space_after ps"
| "drop_space_after (Tag t # ps) = Tag t # drop_space_after (dropWhile is_space_piece ps)"
  by pat_completeness auto
termination
  by (relation "measure length") (auto simp: less_Suc_eq_le length_dropWhile_le)

fun tag_follows :: "piece list \<Rightarrow> bool" where
  "tag_follows [] = False"
| "tag_follows (Tag t # ps) = True"
| "tag_follows (Ch c # ps) = (is_space c \<and> tag_follows ps)"

fun drop_space_before :: "piece list \<Rightarrow> piece list" where
  "drop_space_before [] = []"
| "drop_space_before (Tag t # ps) = Tag t # drop_space_before ps"
| "drop_space_before (Ch c # ps) =
     (if is_space c \<and> tag_follows ps then drop_space_before ps else Ch c # drop_space_before ps)"

fun kept_text :: "piece list \<Rightarrow> string" where
  "kept_text [] = []"
| "kept_text (Tag t # ps) = kept_text ps"
| "kept_text (Ch c # ps) = c # kept_text ps"

definition without_tags :: "string \<Rightarrow> string" where
  "without_tags s = kept_text (drop_space_before (drop_space_after (pieces s)))"

section \<open>Notions used in the proofs, and example data\<close>

text \<open>
  The dictionary read from the wallet file is keyed by \<^verbatim>\<open>str(wallet.get('user_id'))\<close>
  and has no key twice; a dictionary of that shape, written out and read again, is itself.
\<close>

definition keyed :: "(string \<times> wallet) list \<Rightarrow> bool" where
  "keyed ws = (distinct (map fst ws) \<and> list_all (\<lambda>kw. fst kw = wallet_key (snd kw)) ws)"

definition stored_wallets :: "store \<Rightarrow> (string \<times> wallet) list" where
  "stored_wallets s = read_wallet_lines (wallet_file s) []"


definition env_ok :: env where
  "env_ok = \<lparr>wallet_read_fails = False, wallet_write_fails = False, txn_read_fails = False,
             txn_append_fails = False, rnd = 0.5, rnd_suffix = 123,
             now_stamp14 = ''20260115103000'', now_date = ''2026-01-15'',
             now_time = ''10:30:00'', now_timestamp = ''2026-01-15T10:30:00'',
             now_created = ''2026-01-15T10:30:00'', now_updated = ''2026-01-15T10:30:00''\<rparr>"

definition env_io_down :: env where
  "env_io_down = env_ok\<lparr>wallet_read_fails := True, wallet_write_fails := True,
                         txn_read_fails := True, txn_append_fails := True\<rparr>"

definition wallet_7 :: wallet where
  "wallet_7 = \<lparr>w_user_id = Some (IdStr ''7''), w_balance = Some 1000,
               w_created_at = Some ''2026-01-01T09:00:00'',
               w_last_updated = Some ''2026-01-01T09:00:00''\<rparr>"

definition store_demo :: store where
  "store_demo = \<lparr>wallet_file = [Parsed wallet_7, Malformed, Blank], transactions_file = []\<rparr>"

definition txn_a :: txn where
  "txn_a = \<lparr>t_id = Some ''TXN20260110101500417'', t_user_id = Some (IdInt 7), t_username = None,
            t_amount = Some 500, t_method = Some ''card'', t_status = Some ''success'',
            t_type = None, t_description = Some ''Test'', t_date = Some ''2026-01-10'',
            t_time = Some ''10:15:00'', t_timestamp = Some ''2026-01-10T10:15:00.120000'',
            t_new_balance = None\<rparr>"

definition txn_b :: txn where
  "txn_b = \<lparr>t_id = Some ''TXN20260112181000733'', t_user_id = Some (IdStr ''7''),
            t_username = Some ''asha'', t_amount = Some 200, t_method = Some ''wallet'',
            t_status = Some ''success'', t_type = Some ''debit'',
            t_description = Some ''Service Purchase'', t_date = Some ''2026-01-12'',
            t_time = Some ''18:10:00'', t_timestamp = Some ''2026-01-12T18:10:00.512000'',
            t_new_balance = Some 300\<rparr>"

definition txn_c :: txn where
  "txn_c = txn_b\<lparr>t_user_id := Some (IdStr ''8''), t_username := Some ''ravi'',
                 t_amount := Some 180, t_type := Some ''credit'',
                 t_description := Some ''Payment Received'',
                 t_timestamp := Some ''2026-01-12T18:10:00.514000'',
                 t_new_balance := Some 180\<rparr>"

definition store_corrupt :: store where
  "store_corrupt = \<lparr>wallet_file = [], transactions_file = [Parsed txn_a, Malformed, Parsed txn_b, Blank, Parsed txn_c]\<rparr>"


section \<open>The wallet dictionary and the wallet file\<close>

lemma update_absent: "k \<notin> fst ` set al \<Longrightarrow> AList.update k v al = al @ [(k, v)]"
  by (induction al) auto

lemma list_all_update:
  "list_all P ws \<Longrightarrow> P (k, w) \<Longrightarrow> list_all P (AList.update k w ws)"
  by (induction ws) auto

lemma keyed_update: "keyed ws \<Longrightarrow> wallet_key w = k \<Longrightarrow> keyed (AList.update k w ws)"
  unfolding keyed_def by (simp add: AList.distinct_update list_all_update)

lemma keyed_read: "keyed acc \<Longrightarrow> keyed (read_wallet_lines ls acc)"
proof (induction ls acc rule: read_wallet_lines.induct)
  case (4 w ls wallets)
  then show ?case by (simp add: keyed_update wallet_key_def)
qed simp_all

lemma read_written:
  "keyed (acc @ ws) \<Longrightarrow> read_wallet_lines (map (\<lambda>kw. Parsed (snd kw)) ws) acc = acc @ ws"
proof (induction ws arbitrary: acc)
  case Nil
  then show ?case by simp
next
  case (Cons p ws)
  obtain k w where p: "p = (k, w)" by (cases p)
  from Cons.prems have k: "k = wallet_key w" and fresh: "k \<notin> fst ` set acc"
    by (auto simp: keyed_def p)
  have "AList.update (py_str_opt (w_user_id w)) w acc = acc @ [(k, w)]"
    using update_absent[OF fresh] k by (simp add: wallet_key_def)
  moreover have "keyed ((acc @ [(k, w)]) @ ws)" using Cons.prems by (simp add: p)
  ultimately show ?case using Cons.IH[of "acc @ [(k, w)]"] by (simp add: p)
qed

lemma keyed_stored: "keyed (stored_wallets s)"
  unfolding stored_wallets_def by (rule keyed_read) (simp add: keyed_def)

lemma stored_after_write:
  "keyed ws \<Longrightarrow> stored_wallets (s\<lparr>wallet_file := map (\<lambda>kw. Parsed (snd kw)) ws\<rparr>) = ws"
  using read_written[of "[]" ws] by (simp add: stored_wallets_def)


lemma get_balance_stored:
  "get_balance e s u =
     (if wallet_read_fails e then Inl (CustomException ''Error reading wallets'')
      else Inr (case map_of (stored_wallets s) (py_str u) of None \<Rightarrow> 0 | Some w \<Rightarrow> balance_of w))"
  by (simp add: get_balance_def read_all_wallets_def stored_wallets_def split: option.splits)

lemma stored_wallets_ledger [simp]:
  "stored_wallets (s\<lparr>transactions_file := l\<rparr>) = stored_wallets s"
  by (simp add: stored_wallets_def)

lemma read_keys:
  "fst ` set (read_wallet_lines ls acc) =
     fst ` set acc \<union> {py_str_opt (w_user_id w) | w. Parsed w \<in> set ls}"
proof (induction ls acc rule: read_wallet_lines.induct)
  case (4 w ls wallets)
  then show ?case by (auto simp: AList.dom_update)
qed auto

lemma set_valid_records: "set (valid_records ls) = {r. Parsed r \<in> set ls}"
  by (induction ls rule: valid_records.induct) auto

lemma has_wallet_iff: "has_wallet s u \<longleftrightarrow> map_of (stored_wallets s) (py_str u) \<noteq> None"
proof -
  have "has_wallet s u \<longleftrightarrow> py_str u \<in> {py_str_opt (w_user_id w) | w. Parsed w \<in> set (wallet_file s)}"
    by (auto simp: has_wallet_def set_valid_records wallet_key_def)
  also have "\<dots> \<longleftrightarrow> py_str u \<in> fst ` set (stored_wallets s)"
    by (simp add: stored_wallets_def read_keys)
  also have "\<dots> \<longleftrightarrow> map_of (stored_wallets s) (py_str u) \<noteq> None"
    by (simp add: map_of_eq_None_iff)
  finally show ?thesis .
qed

lemma str_7: "str_of_int 7 = ''7''"
  by (simp add: str_of_int_def str_of_nat.simps digit_char_def)

lemma str_8: "str_of_int 8 = ''8''"
  by (simp add: str_of_int_def str_of_nat.simps digit_char_def)

lemma no_wallet_demo_8: "\<not> has_wallet store_demo (IdInt 8)"
  by (simp add: has_wallet_def store_demo_def wallet_7_def str_8 wallet_key_def)

lemma wallet_demo_7: "has_wallet store_demo (IdInt 7)"
  by (simp add: has_wallet_def store_demo_def wallet_7_def str_7 wallet_key_def)

lemma balance_demo_7: "get_balance env_ok store_demo (IdInt 7) = Inr 1000"
  by (simp add: get_balance_def read_all_wallets_def env_ok_def store_demo_def wallet_7_def
      str_7 balance_of_def)












section \<open>Rejection of non-positive amounts\<close>

text \<open>
  C3. For every amount \<open>\<le> 0\<close>, every user, every store and every behaviour of the file
  system (also one where each file operation would raise), add\_money, deduct\_money
  and credit\_seller raise the CustomException "Amount must be greater than 0" (the
  spec's InvalidAmount) and return the store as it was: neither file is read or written.
\<close>

theorem invalid_amount_rejected:
  assumes "amount \<le> 0"
  shows "add_money e s u amount m d = (Inl (CustomException ''Amount must be greater than 0''), s)
       \<and> deduct_money e s u amount d n = (Inl (CustomException ''Amount must be greater than 0''), s)
       \<and> credit_seller e s u amount d n i = (Inl (CustomException ''Amount must be greater than 0''), s)"
  using assms by (simp add: add_money_def deduct_money_def credit_seller_def)

theorem invalid_amount_rejected_witness:
  "(-5::real) \<le> 0
   \<and> add_money env_io_down store_demo (IdInt 7) (-5) ''card'' ''Wallet Recharge''
       = (Inl (CustomException ''Amount must be greater than 0''), store_demo)
   \<and> deduct_money env_io_down store_demo (IdInt 7) (-5) ''Wallet Recharge'' None
       = (Inl (CustomException ''Amount must be greater than 0''), store_demo)
   \<and> credit_seller env_io_down store_demo (IdInt 7) (-5) ''Wallet Recharge'' None None
       = (Inl (CustomException ''Amount must be greater than 0''), store_demo)"
  using invalid_amount_rejected[of "-5" env_io_down store_demo "IdInt 7" "''card''"
          "''Wallet Recharge''" None None]
  by simp

section \<open>deduct\_money\<close>





section \<open>add\_money\<close>




section \<open>Order settlement\<close>




section \<open>create\_wallet\<close>

text \<open>
  C6, as the code has it. With the wallet file readable and writable: create\_wallet(u, b1)
  followed by create\_wallet(u, b2) returns the same record twice, the record stored for
  \<open>u\<close>; the second call leaves the store as the first left it, whatever \<open>b2\<close> is; and the
  stored balance is \<open>b1\<close> afterwards when \<open>u\<close> had no stored wallet before the first
  call, and the balance stored before otherwise (then the first call changes nothing
  either).
\<close>

theorem create_wallet_twice:
  assumes rd1: "\<not> wallet_read_fails e1" and wr1: "\<not> wallet_write_fails e1"
    and rd2: "\<not> wallet_read_fails e2"
  shows "\<exists>w s1. create_wallet e1 s u b1 = (Inr w, s1)
           \<and> create_wallet e2 s1 u b2 = (Inr w, s1)
           \<and> map_of (stored_wallets s1) (py_str u) = Some w
           \<and> get_balance e2 s1 u = (if has_wallet s u then get_balance e2 s u else Inr b1)
           \<and> (has_wallet s u \<longrightarrow> s1 = s)"
proof (cases "map_of (stored_wallets s) (py_str u)")
  case (Some w)
  then have hw: "has_wallet s u" by (simp add: has_wallet_iff)
  have c1: "create_wallet e1 s u b1 = (Inr w, s)"
    using Some rd1 by (simp add: create_wallet_def read_all_wallets_def stored_wallets_def)
  have c2: "create_wallet e2 s u b2 = (Inr w, s)"
    using Some rd2 by (simp add: create_wallet_def read_all_wallets_def stored_wallets_def)
  show ?thesis using hw Some by (simp add: c1 c2)
next
  case None
  let ?uid = "py_str u"
  from None have hw: "\<not> has_wallet s u" by (simp add: has_wallet_iff)
  define w where "w = \<lparr>w_user_id = Some (IdStr ?uid), w_balance = Some b1,
                         w_created_at = Some (now_created e1),
                         w_last_updated = Some (now_updated e1)\<rparr>"
  define W' where "W' = AList.update ?uid w (stored_wallets s)"
  have "wallet_key w = ?uid" by (simp add: w_def wallet_key_def)
  then have kW': "keyed W'" unfolding W'_def by (rule keyed_update[OF keyed_stored])
  have look: "map_of W' ?uid = Some w" by (simp add: W'_def AList.update_conv')
  define s1 where "s1 = s\<lparr>wallet_file := map (\<lambda>kw. Parsed (snd kw)) W'\<rparr>"
  have st1: "stored_wallets s1 = W'" unfolding s1_def by (rule stored_after_write[OF kW'])
  have c1: "create_wallet e1 s u b1 = (Inr w, s1)"
    using None rd1 wr1 look
    by (simp add: create_wallet_def read_all_wallets_def write_all_wallets_def Let_def
        stored_wallets_def[symmetric] w_def[symmetric] W'_def[symmetric] s1_def[symmetric])
  have c2: "create_wallet e2 s1 u b2 = (Inr w, s1)"
    using rd2 look st1
    by (simp add: create_wallet_def read_all_wallets_def stored_wallets_def[symmetric])
  have "balance_of w = b1" by (simp add: w_def balance_of_def)
  then show ?thesis
    using hw rd2 look by (simp add: c1 c2 st1 get_balance_stored)
qed

theorem create_wallet_twice_witness:
  "\<not> wallet_read_fails env_ok \<and> \<not> wallet_write_fails env_ok
   \<and> \<not> has_wallet store_demo (IdInt 8) \<and> has_wallet store_demo (IdInt 7)
   \<and> (\<exists>w s1. create_wallet env_ok store_demo (IdInt 8) 5 = (Inr w, s1)
          \<and> create_wallet env_ok s1 (IdInt 8) 9 = (Inr w, s1)
          \<and> map_of (stored_wallets s1) ''8'' = Some w
          \<and> get_balance env_ok s1 (IdInt 8) = Inr 5)
   \<and> (\<exists>w. create_wallet env_ok store_demo (IdInt 7) 5 = (Inr w, store_demo)
          \<and> create_wallet env_ok store_demo (IdInt 7) 9 = (Inr w, store_demo)
          \<and> map_of (stored_wallets store_demo) ''7'' = Some w
          \<and> get_balance env_ok store_demo (IdInt 7) = Inr 1000)"
  using create_wallet_twice[of env_ok env_ok store_demo "IdInt 8" 5 9]
        create_wallet_twice[of env_ok env_ok store_demo "IdInt 7" 5 9]
        wallet_demo_7 no_wallet_demo_8 balance_demo_7
  by (simp add: env_ok_def str_7 str_8)

text \<open>
  C6 as stated fails where \<open>u\<close> already has a wallet: user 7 holds 1000, and after
  create\_wallet(7, 5) and create\_wallet(7, 9) the stored balance is 1000, not 5.
\<close>

theorem create_wallet_existing_counterexample:
  "get_balance env_ok
     (snd (create_wallet env_ok (snd (create_wallet env_ok store_demo (IdInt 7) 5)) (IdInt 7) 9))
     (IdInt 7) = Inr 1000
   \<and> (1000::real) \<noteq> 5"
  by (simp add: create_wallet_def get_balance_def read_all_wallets_def env_ok_def store_demo_def
      wallet_7_def str_7 balance_of_def Let_def)

section \<open>Reading the ledger\<close>

text \<open>
  C2, at a failing input. The ledger holds a valid line, a malformed line, and then the
  record that is looked for: get\_transaction neither returns the record nor raises
  TransactionNotFoundException, it returns None. Without the malformed line the same
  call returns the record.
\<close>

theorem get_transaction_stops_at_malformed:
  "get_transaction env_ok store_corrupt ''TXN20260112181000733'' None = Inr None
   \<and> get_transaction env_ok (store_corrupt\<lparr>transactions_file := [Parsed txn_a, Parsed txn_b]\<rparr>)
        ''TXN20260112181000733'' None = Inr (Some txn_b)"
  by (simp add: get_transaction_def env_ok_def store_corrupt_def txn_a_def txn_b_def)

text \<open>
  On a ledger without a malformed line the scan is the specified find: the first
  matching record, or TransactionNotFoundException when there is none.
\<close>

lemma scan_without_malformed:
  "Malformed \<notin> set ls \<Longrightarrow>
     scan_transaction ls i uid =
       (case find (matches i uid) (valid_records ls) of
          None \<Rightarrow> Inl (TransactionNotFoundException i)
        | Some t \<Rightarrow> Inr (Some t))"
proof (induction ls)
  case Nil
  then show ?case by simp
next
  case (Cons l ls)
  then show ?case by (cases l) (auto simp: matches_def)
qed




lemma read_all_lines_valid: "read_all_lines ls acc = acc @ valid_records ls"
  by (induction ls acc rule: read_all_lines.induct) simp_all

lemma read_user_lines_valid:
  "read_user_lines ls uid acc = acc @ filter (\<lambda>t. py_str_opt (t_user_id t) = uid) (valid_records ls)"
  by (induction ls uid acc rule: read_user_lines.induct) simp_all

lemma mset_sort_reverse: "mset (sort_reverse k xs) = mset xs"
  by (simp add: sort_reverse_def)

lemma sort_reverse_descending: "sorted_wrt (\<lambda>a b. k b \<le> k a) (sort_reverse k xs)"
proof -
  have "sorted (map k (sort_key k (rev xs)))" by (rule sorted_sort_key)
  then have "sorted_wrt (\<lambda>a b. k a \<le> k b) (sort_key k (rev xs))"
    by (simp add: sorted_map)
  then show ?thesis by (simp add: sort_reverse_def sorted_wrt_rev)
qed

text \<open>Ties keep their file order.\<close>

lemma sort_reverse_stable:
  "filter (\<lambda>y. k y = v) (sort_reverse k xs) = filter (\<lambda>y. k y = v) xs"
  by (simp add: sort_reverse_def rev_filter[symmetric] sort_key_stable)

text \<open>
  C8. For every ledger, whatever blank and malformed lines it has between its valid
  lines, and with the file readable: get\_all\_transactions returns, without raising,
  exactly the valid records (each as often as the ledger has it), ordered by timestamp
  descending; get\_user\_transactions returns exactly the valid records whose
  \<^verbatim>\<open>str(user_id)\<close> is that of the user asked for, ordered by timestamp descending. A
  record without a timestamp sorts as the empty string.
\<close>

theorem listing_spec:
  assumes "\<not> txn_read_fails e"
  shows "(\<exists>ys. get_all_transactions e s = Inr ys
            \<and> mset ys = mset (valid_records (transactions_file s))
            \<and> sorted_wrt (\<lambda>a b. timestamp_key b \<le> timestamp_key a) ys)
       \<and> (\<exists>zs. get_user_transactions e s u = Inr zs
            \<and> mset zs = mset (filter (\<lambda>t. py_str_opt (t_user_id t) = py_str u)
                                (valid_records (transactions_file s)))
            \<and> sorted_wrt (\<lambda>a b. timestamp_key b \<le> timestamp_key a) zs)"
  using assms
  by (simp add: get_all_transactions_def get_user_transactions_def read_all_lines_valid
      read_user_lines_valid mset_sort_reverse sort_reverse_descending)

lemma listing_demo_all: "get_all_transactions env_ok store_corrupt = Inr [txn_c, txn_b, txn_a]"
  by code_simp

lemma listing_demo_user: "get_user_transactions env_ok store_corrupt (IdInt 7) = Inr [txn_b, txn_a]"
  by code_simp


theorem listing_spec_witness:
  "\<not> txn_read_fails env_ok
   \<and> get_all_transactions env_ok store_corrupt = Inr [txn_c, txn_b, txn_a]
   \<and> get_user_transactions env_ok store_corrupt (IdInt 7) = Inr [txn_b, txn_a]
   \<and> (\<exists>ys. get_all_transactions env_ok store_corrupt = Inr ys
          \<and> mset ys = mset (valid_records (transactions_file store_corrupt))
          \<and> sorted_wrt (\<lambda>a b. timestamp_key b \<le> timestamp_key a) ys)
   \<and> (\<exists>zs. get_user_transactions env_ok store_corrupt (IdInt 7) = Inr zs
          \<and> mset zs = mset (filter (\<lambda>t. py_str_opt (t_user_id t) = py_str (IdInt 7))
                              (valid_records (transactions_file store_corrupt)))
          \<and> sorted_wrt (\<lambda>a b. timestamp_key b \<le> timestamp_key a) zs)"
proof -
  have io: "\<not> txn_read_fails env_ok" by (simp add: env_ok_def)
  from listing_spec[OF io, of store_corrupt "IdInt 7"] io listing_demo_all listing_demo_user
  show ?thesis by blast
qed

section \<open>The invoice description\<close>

text \<open>The pieces are the string, cut up; the tag pieces are occurrences of the tag.\<close>

lemma pieces_cover: "concat (map piece_text (pieces s)) = s"
proof (induction s rule: pieces.induct)
  case 1
  then show ?case by simp
next
  case (2 x xs)
  have "take 12 (x # xs) @ drop 11 xs = x # xs"
    using append_take_drop_id[of 12 "x # xs"] by simp
  then show ?case using 2 by auto
qed

lemma pieces_tags: "Tag t \<in> set (pieces s) \<Longrightarrow> is_tag t"
  by (induction s rule: pieces.induct) (auto split: if_splits)

text \<open>What the pattern matches.\<close>

lemma space_not_bracket: "is_space x \<Longrightarrow> lower_ascii x \<noteq> lower_ascii CHR ''[''"
  by (auto simp: is_space_def lower_ascii_def Let_def)

lemma match_literals:
  "match_here (map Literal lits @ p) s =
     (if length lits \<le> length s \<and> map lower_ascii (take (length lits) s) = map lower_ascii lits
      then match_here p (drop (length lits) s) else None)"
proof (induction lits arbitrary: s)
  case Nil
  then show ?case by simp
next
  case (Cons c lits)
  then show ?case by (cases s) auto
qed

lemma match_literals_n:
  "length lits = n \<Longrightarrow> match_here (map Literal lits @ p) s =
     (if n \<le> length s \<and> map lower_ascii (take n s) = map lower_ascii lits
      then match_here p (drop n s) else None)"
  using match_literals[of lits p s] by simp

lemma match_last_star: "match_here [WhitespaceStar] s = Some (dropWhile is_space s)"
  by (induction s) auto

lemma match_star_then_literal:
  assumes "\<And>x. is_space x \<Longrightarrow> lower_ascii x \<noteq> lower_ascii c"
  shows "match_here (WhitespaceStar # Literal c # p) s = match_here (Literal c # p) (dropWhile is_space s)"
proof (induction s)
  case Nil
  then show ?case by simp
next
  case (Cons x xs)
  then show ?case using assms by (auto split: option.splits)
qed

lemma match_manual_fix:
  "match_here manual_fix_pattern s =
     (if is_tag (take 12 (dropWhile is_space s))
      then Some (dropWhile is_space (drop 12 (dropWhile is_space s))) else None)"
proof -
  let ?r = "dropWhile is_space s"
  have low: "map lower_ascii ''[MANUAL FIX]'' = ''[manual fix]''"
    by code_simp
  have star: "match_here manual_fix_pattern s =
      match_here (map Literal ''[MANUAL FIX]'' @ [WhitespaceStar]) ?r"
    using match_star_then_literal[OF space_not_bracket,
        of "map Literal ''MANUAL FIX]'' @ [WhitespaceStar]" s]
    by (simp add: manual_fix_pattern_def)
  have lit: "match_here (map Literal ''[MANUAL FIX]'' @ [WhitespaceStar]) ?r =
      (if 12 \<le> length ?r \<and> map lower_ascii (take 12 ?r) = ''[manual fix]''
       then match_here [WhitespaceStar] (drop 12 ?r) else None)"
    by (rule match_literals_n[of "''[MANUAL FIX]''" 12 "[WhitespaceStar]" ?r, unfolded low])
      simp
  have len: "12 \<le> length ?r" if "map lower_ascii (take 12 ?r) = ''[manual fix]''"
  proof -
    from that have "length (map lower_ascii (take 12 ?r)) = length ''[manual fix]''"
      by simp
    then show ?thesis by simp
  qed
  show ?thesis
    unfolding star lit using len by (simp add: match_last_star is_tag_def)
qed

lemma is_tag_length: "is_tag t \<Longrightarrow> length t = 12"
proof -
  assume "is_tag t"
  then have "length (map lower_ascii t) = length ''[manual fix]''"
    unfolding is_tag_def by simp
  then show ?thesis by simp
qed

lemma is_tag_head: "is_tag (take 12 s) \<Longrightarrow> \<exists>x xs. s = x # xs \<and> \<not> is_space x"
proof -
  assume t: "is_tag (take 12 s)"
  then obtain x xs where s: "s = x # xs" by (cases s) (auto simp: is_tag_def)
  from t have "lower_ascii x = CHR ''[''" by (simp add: s is_tag_def)
  then have "\<not> is_space x" using space_not_bracket[of x] by (auto simp: lower_ascii_def)
  with s show ?thesis by blast
qed

text \<open>Cutting the string into pieces commutes with skipping whitespace.\<close>

lemma pieces_space: "is_space x \<Longrightarrow> pieces (x # xs) = Ch x # pieces xs"
  using is_tag_head[of "x # xs"] by auto

lemma pieces_dropWhile:
  "dropWhile is_space_piece (pieces s) = pieces (dropWhile is_space s)"
proof (induction s)
  case Nil
  then show ?case by simp
next
  case (Cons x xs)
  show ?case
  proof (cases "is_space x")
    case True
    then show ?thesis using Cons by (simp add: pieces_space del: pieces.simps)
  next
    case False
    then show ?thesis by simp
  qed
qed

lemma tag_follows_pieces:
  "tag_follows (pieces s) \<longleftrightarrow> is_tag (take 12 (dropWhile is_space s))"
proof (induction s)
  case Nil
  then show ?case by (simp add: is_tag_def)
next
  case (Cons x xs)
  show ?case
  proof (cases "is_space x")
    case True
    then show ?thesis using Cons by (simp add: pieces_space del: pieces.simps)
  next
    case False
    then show ?thesis by simp
  qed
qed

lemma tag_follows_after: "tag_follows (drop_space_after ps) = tag_follows ps"
  by (induction ps rule: drop_space_after.induct) simp_all

lemma drop_after_spaces:
  "list_all is_space_piece ws \<Longrightarrow> drop_space_after (ws @ ps) = ws @ drop_space_after ps"
proof (induction ws)
  case Nil
  then show ?case by simp
next
  case (Cons w ws)
  then show ?case by (cases w) simp_all
qed

lemma drop_before_spaces:
  "list_all is_space_piece ws \<Longrightarrow> tag_follows ps \<Longrightarrow>
     drop_space_before (ws @ ps) = drop_space_before ps \<and> tag_follows (ws @ ps)"
proof (induction ws)
  case Nil
  then show ?case by simp
next
  case (Cons w ws)
  then show ?case by (cases w) simp_all
qed


lemma pieces_spaces:
  "list_all is_space ws \<Longrightarrow> pieces (ws @ t) = map Ch ws @ pieces t"
proof (induction ws)
  case Nil
  then show ?case by simp
next
  case (Cons w ws)
  then show ?case using pieces_space[of w "ws @ t"] by simp
qed

lemma pieces_tag:
  assumes "is_tag (take 12 t)"
  shows "pieces t = Tag (take 12 t) # pieces (drop 12 t)"
proof -
  from is_tag_head[OF assms] obtain x xs where t: "t = x # xs" by blast
  have "drop 11 xs = drop 12 (x # xs)" by simp
  then show ?thesis using assms unfolding t by (metis pieces.simps(2))
qed

lemma without_tags_cut:
  assumes tag: "is_tag (take 12 (dropWhile is_space s))"
  shows "without_tags s = without_tags (dropWhile is_space (drop 12 (dropWhile is_space s)))"
proof -
  let ?ws = "takeWhile is_space s" and ?t = "dropWhile is_space s"
  let ?W = "map Ch ?ws"
  let ?r = "dropWhile is_space (drop 12 ?t)"
  have sp: "list_all is_space ?ws"
    by (simp add: list_all_iff) (meson set_takeWhileD)
  then have spW: "list_all is_space_piece ?W" by (simp add: list_all_iff)
  have "pieces s = pieces (?ws @ ?t)" by simp
  also have "\<dots> = ?W @ pieces ?t" by (rule pieces_spaces[OF sp])
  also have "\<dots> = ?W @ Tag (take 12 ?t) # pieces (drop 12 ?t)"
    by (simp add: pieces_tag[OF tag])
  finally have p: "pieces s = ?W @ Tag (take 12 ?t) # pieces (drop 12 ?t)" .
  have a: "drop_space_after (pieces s) = ?W @ Tag (take 12 ?t) # drop_space_after (pieces ?r)"
    by (simp add: p drop_after_spaces[OF spW] pieces_dropWhile)
  have "drop_space_before (?W @ Tag (take 12 ?t) # drop_space_after (pieces ?r))
      = drop_space_before (Tag (take 12 ?t) # drop_space_after (pieces ?r))"
    using drop_before_spaces[OF spW, of "Tag (take 12 ?t) # drop_space_after (pieces ?r)"]
    by simp
  then show ?thesis by (simp add: without_tags_def a)
qed

lemma without_tags_keep:
  assumes "\<not> is_tag (take 12 (dropWhile is_space (x # xs)))"
  shows "without_tags (x # xs) = x # without_tags xs"
proof -
  have p: "pieces (x # xs) = Ch x # pieces xs"
  proof (cases "is_space x")
    case True
    then show ?thesis by (rule pieces_space)
  next
    case False
    then show ?thesis using assms by simp
  qed
  have "\<not> (is_space x \<and> tag_follows (drop_space_after (pieces xs)))"
    using assms by (auto simp: tag_follows_after tag_follows_pieces)
  then show ?thesis by (simp add: without_tags_def p del: pieces.simps)
qed

lemma re_sub_removes_tags: "re_sub manual_fix_pattern s = without_tags s"
proof (induction s rule: length_induct)
  case (1 s)
  show ?case
  proof (cases s)
    case Nil
    then show ?thesis by (simp add: without_tags_def)
  next
    case (Cons x xs)
    let ?t = "dropWhile is_space s"
    let ?r = "dropWhile is_space (drop 12 ?t)"
    show ?thesis
    proof (cases "is_tag (take 12 ?t)")
      case True
      have "length (take 12 ?t) = 12" using True by (rule is_tag_length)
      then have "12 \<le> length ?t" by simp
      moreover have "length ?r \<le> length (drop 12 ?t)" by (rule length_dropWhile_le)
      moreover have "length ?t \<le> length s" by (rule length_dropWhile_le)
      ultimately have short: "length ?r < length s" by simp
      then have "re_sub manual_fix_pattern ?r = without_tags ?r" using 1 by blast
      moreover have "re_sub manual_fix_pattern s = re_sub manual_fix_pattern ?r"
        using True short by (simp add: Cons match_manual_fix)
      ultimately show ?thesis using without_tags_cut[OF True] by simp
    next
      case False
      have "re_sub manual_fix_pattern xs = without_tags xs" using 1 Cons by simp
      moreover have "re_sub manual_fix_pattern s = x # re_sub manual_fix_pattern xs"
        using False by (simp add: Cons match_manual_fix)
      ultimately show ?thesis using without_tags_keep[of x xs] False by (simp add: Cons)
    qed
  qed
qed

text \<open>
  C9, as the code has it. For every transaction record, the description put on the
  invoice is the record's description (the text "Service Transaction" when the record
  has none) with every case-insensitive occurrence of the tag [MANUAL FIX] and the
  whitespace around it removed, and with the whitespace at the two ends of the result
  stripped. The description is a function of the record alone: no ledger or wallet
  state is an argument of it or is returned by it.
\<close>

theorem invoice_description_spec:
  "invoice_description transaction =
     strip (without_tags (case t_description transaction of
                            None \<Rightarrow> ''Service Transaction''
                          | Some d \<Rightarrow> d))"
  by (simp add: invoice_description_def clean_description_def re_sub_removes_tags)

text \<open>
  C9 as stated fails on a description with whitespace at an end and no tag there:
  removing the tags leaves the leading blank, the invoice does not show it.
\<close>

theorem invoice_description_counterexample:
  "invoice_description (txn_a\<lparr>t_description := Some '' Refund [manual fix] issued''\<rparr>)
     = ''Refundissued''
   \<and> without_tags '' Refund [manual fix] issued'' = '' Refundissued''
   \<and> invoice_description (txn_a\<lparr>t_description := Some '' Refund [manual fix] issued''\<rparr>)
     \<noteq> without_tags '' Refund [manual fix] issued''"
  by code_simp

end
